theory Spec2Isabelle
  imports Main
begin

unbundle bit_operations_syntax

section \<open>Machine integers of the driver\<close>

text \<open>
  The C types \<open>int\<close> and \<open>unsigned int\<close>/\<open>u32\<close> are modelled as mathematical integers
  with the conversions written out: \<open>u32\<close> is the conversion to a 32-bit unsigned value
  (reduction modulo \<open>2^32\<close>), \<open>s32\<close> the conversion back to a 32-bit signed value.
  The kernel is built with wrapping signed arithmetic, so \<open>u32 (a - b)\<close> is also the
  value of the \<open>int\<close> expression \<open>a - b\<close> converted to \<open>u32\<close>.
\<close>

definition u32 :: "int \<Rightarrow> int" where
  "u32 x = x mod 4294967296"

definition s32 :: "int \<Rightarrow> int" where
  "s32 x = (if u32 x < 2147483648 then u32 x else u32 x - 4294967296)"

section \<open>Errors\<close>

text \<open>
  The errno values the driver returns, and the three ways in which the C code of the
  conversion could leave defined behaviour: an array access outside the table, a read of
  the local \<open>mid\<close> before any assignment, and a division by zero.
\<close>

datatype undefined_behaviour = Out_Of_Bounds | Uninitialised_Read | Division_By_Zero

datatype error = EAGAIN | EINVAL | EFAULT | ENOTTY | UB undefined_behaviour

section \<open>Calibration tables (day2/tsadc.c, day2/tsadc_platform.c)\<close>

record tsadc_table =
  temp :: int
  code :: int

definition entry :: "int \<Rightarrow> int \<Rightarrow> tsadc_table" where
  "entry t c = \<lparr>temp = t, code = c\<rparr>"

text \<open>The table of \<open>tsadc.c\<close> in the default build (\<open>TRY_AI_BUG\<close> not defined).\<close>

definition rk3588_code_table :: "tsadc_table list" where
  "rk3588_code_table = [entry 125 395, entry 85 350, entry 25 285, entry (-40) 215]"

text \<open>
  The table of \<open>tsadc_platform.c\<close>; \<open>tsadc.c\<close> has the same entries under
  \<open>#ifdef TRY_AI_BUG\<close>.
\<close>

definition rk3588_code_table_platform :: "tsadc_table list" where
  "rk3588_code_table_platform =
    [entry (-40) 3800, entry (-30) 3630, entry (-20) 3440, entry (-10) 3240,
     entry 0 3020, entry 10 2790, entry 20 2550, entry 30 2290,
     entry 40 2020, entry 50 1730, entry 60 1420, entry 70 1090,
     entry 80 740, entry 90 360, entry 100 (-50), entry 110 (-530)]"

text \<open>\<open>table[i]\<close> for an \<open>unsigned int\<close> index: outside the array the access is undefined.\<close>

definition table_at :: "tsadc_table list \<Rightarrow> int \<Rightarrow> error + tsadc_table" where
  "table_at table i =
    (if 0 \<le> i \<and> i < int (length table) then Inr (table ! nat i) else Inl (UB Out_Of_Bounds))"

text \<open>\<open>ARRAY_SIZE(table) - 1\<close> stored in an \<open>unsigned int\<close>.\<close>

definition last_index :: "tsadc_table list \<Rightarrow> int" where
  "last_index table = u32 (int (length table) - 1)"

section \<open>Conversion engine: code to temperature\<close>

text \<open>
  The test of the loop, \<open>code >= table[mid].code && code <= table[mid - 1].code\<close>:
  the second operand is evaluated only when the first holds.
\<close>

definition in_interval :: "tsadc_table list \<Rightarrow> int \<Rightarrow> int \<Rightarrow> error + bool" where
  "in_interval table c mid =
    (case table_at table mid of
       Inl e \<Rightarrow> Inl e
     | Inr em \<Rightarrow>
         if c \<ge> code em then
           (case table_at table (u32 (mid - 1)) of
              Inl e \<Rightarrow> Inl e
            | Inr ep \<Rightarrow> Inr (c \<le> code ep))
         else Inr False)"

text \<open>
  How the \<open>while (low <= high)\<close> loop ends: by \<open>break\<close> with the current \<open>mid\<close>, or
  because \<open>low > high\<close>, with \<open>mid\<close> as the last iteration left it (\<open>None\<close> when the
  body never ran, so that \<open>mid\<close> is still uninitialised).
\<close>

datatype loop_end = Found int | Exhausted "int option"

text \<open>
  The loop itself, on the \<open>unsigned int\<close> variables \<open>low\<close>, \<open>high\<close> and \<open>mid\<close>. The result
  \<open>None\<close> stands for a loop that never ends.
\<close>

partial_function (option) search_loop ::
  "tsadc_table list \<Rightarrow> int \<Rightarrow> int \<Rightarrow> int \<Rightarrow> int option \<Rightarrow> (error + loop_end) option" where
  "search_loop table c low high mid =
    (if low \<le> high then
       (let mid' = u32 (low + high) div 2 in
        case in_interval table c mid' of
          Inl e \<Rightarrow> Some (Inl e)
        | Inr hit \<Rightarrow>
            if hit then Some (Inr (Found mid'))
            else
              (case table_at table mid' of
                 Inl e \<Rightarrow> Some (Inl e)
               | Inr em \<Rightarrow>
                   if c > code em then search_loop table c low (u32 (mid' - 1)) (Some mid')
                   else search_loop table c (u32 (mid' + 1)) high (Some mid')))
     else Some (Inr (Exhausted mid)))"

declare search_loop.simps [code]

text \<open>The value of \<open>mid\<close> read after the loop.\<close>

definition mid_after :: "loop_end \<Rightarrow> error + int" where
  "mid_after e =
    (case e of
       Found m \<Rightarrow> Inr m
     | Exhausted (Some m) \<Rightarrow> Inr m
     | Exhausted None \<Rightarrow> Inl (UB Uninitialised_Read))"

text \<open>
  The interpolation of \<open>tsadc.c\<close>, with \<open>ep = table[mid - 1]\<close> and \<open>em = table[mid]\<close>:
  \<open>num\<close> and \<open>den\<close> are \<open>u32\<close>, so the product, the division and the sum are unsigned
  32-bit operations, and the result is converted to \<open>int\<close> by the store to \<open>*temp\<close>.
\<close>

definition interpolate :: "tsadc_table \<Rightarrow> tsadc_table \<Rightarrow> int \<Rightarrow> error + int" where
  "interpolate ep em c =
    (let num = u32 (temp ep - temp em);
         den = u32 (code ep - code em)
     in if den = 0 then Inl (UB Division_By_Zero)
        else Inr (s32 (u32 (u32 (c - code em) * num) div den + u32 (temp em))))"

text \<open>
  The interpolation of \<open>tsadc_platform.c\<close>:
  \<open>*temp = table[mid - 1].temp - ((code - table[mid].code) * num) / den\<close>.
\<close>

definition interpolate_platform :: "tsadc_table \<Rightarrow> tsadc_table \<Rightarrow> int \<Rightarrow> error + int" where
  "interpolate_platform ep em c =
    (let num = u32 (temp ep - temp em);
         den = u32 (code ep - code em)
     in if den = 0 then Inl (UB Division_By_Zero)
        else Inr (s32 (u32 (temp ep) - u32 (u32 (c - code em) * num) div den)))"

text \<open>
  The part the two variants of the conversion share: the two range checks, the loop, and
  the reads of \<open>table[mid - 1]\<close> and \<open>table[mid]\<close>; \<open>high\<close> is passed in because
  \<open>tsadc_platform.c\<close> takes it from the global table and not from its parameter.
\<close>

definition convert ::
  "(tsadc_table \<Rightarrow> tsadc_table \<Rightarrow> int \<Rightarrow> error + int) \<Rightarrow> tsadc_table list \<Rightarrow> int \<Rightarrow> int
     \<Rightarrow> (error + int) option" where
  "convert interp table high c =
    (case table_at table 0 of
       Inl e \<Rightarrow> Some (Inl e)
     | Inr e0 \<Rightarrow>
         if c > code e0 then Some (Inl EAGAIN)
         else
           (case table_at table high of
              Inl e \<Rightarrow> Some (Inl e)
            | Inr eh \<Rightarrow>
                if c < code eh then Some (Inl EINVAL)
                else
                  (case search_loop table c 1 high None of
                     None \<Rightarrow> None
                   | Some (Inl e) \<Rightarrow> Some (Inl e)
                   | Some (Inr fin) \<Rightarrow>
                       (case mid_after fin of
                          Inl e \<Rightarrow> Some (Inl e)
                        | Inr mid \<Rightarrow>
                            (case table_at table (u32 (mid - 1)) of
                               Inl e \<Rightarrow> Some (Inl e)
                             | Inr ep \<Rightarrow>
                                 (case table_at table mid of
                                    Inl e \<Rightarrow> Some (Inl e)
                                  | Inr em \<Rightarrow> Some (interp ep em c)))))))"

text \<open>\<open>code_to_temp\<close> of \<open>tsadc.c\<close>, over the table the build compiles in.\<close>

definition code_to_temp_on :: "tsadc_table list \<Rightarrow> int \<Rightarrow> (error + int) option" where
  "code_to_temp_on table c = convert interpolate table (last_index table) c"

definition code_to_temp :: "int \<Rightarrow> (error + int) option" where
  "code_to_temp c = code_to_temp_on rk3588_code_table c"

text \<open>\<open>rk3588_tsadc_code_to_temp\<close> of \<open>tsadc_platform.c\<close>.\<close>

definition rk3588_tsadc_code_to_temp :: "tsadc_table list \<Rightarrow> int \<Rightarrow> (error + int) option" where
  "rk3588_tsadc_code_to_temp table c =
    convert interpolate_platform table (last_index rk3588_code_table_platform) c"

section \<open>Conversion engine: temperature to code (day2/tsadc.c)\<close>

text \<open>
  The test of the scan, \<open>temp <= table[i].temp && temp > table[i+1].temp\<close>, with the
  second operand evaluated only when the first holds.
\<close>

definition in_bracket :: "tsadc_table list \<Rightarrow> int \<Rightarrow> int \<Rightarrow> error + bool" where
  "in_bracket table t i =
    (case table_at table i of
       Inl e \<Rightarrow> Inl e
     | Inr ei \<Rightarrow>
         if t \<le> temp ei then
           (case table_at table (i + 1) of
              Inl e \<Rightarrow> Inl e
            | Inr en \<Rightarrow> Inr (t > temp en))
         else Inr False)"

text \<open>\<open>ARRAY_SIZE(table) - 1\<close> as the \<open>size_t\<close> the loop index is compared with.\<close>

definition scan_bound :: "tsadc_table list \<Rightarrow> int" where
  "scan_bound table = (int (length table) - 1) mod 18446744073709551616"

function temp_to_code_loop :: "tsadc_table list \<Rightarrow> int \<Rightarrow> int \<Rightarrow> error + int" where
  "temp_to_code_loop table t i =
    (if i < scan_bound table then
       (case in_bracket table t i of
          Inl e \<Rightarrow> Inl e
        | Inr hit \<Rightarrow>
            if hit then (case table_at table i of Inl e \<Rightarrow> Inl e | Inr ei \<Rightarrow> Inr (code ei))
            else temp_to_code_loop table t (i + 1))
     else (case table_at table 0 of Inl e \<Rightarrow> Inl e | Inr e0 \<Rightarrow> Inr (code e0)))"
  by pat_completeness auto
termination
  by (relation "measure (\<lambda>(table, t, i). nat (int (length table) - i))")
     (auto simp: in_bracket_def table_at_def split: if_splits sum.splits)

declare temp_to_code_loop.simps [simp del]

definition temp_to_code_on :: "tsadc_table list \<Rightarrow> int \<Rightarrow> error + int" where
  "temp_to_code_on table t = temp_to_code_loop table t 0"

definition temp_to_code :: "int \<Rightarrow> error + int" where
  "temp_to_code t = temp_to_code_on rk3588_code_table t"

section \<open>Device state and register access (day2/tsadc.c)\<close>

definition TSADC_AUTO_CON :: int where "TSADC_AUTO_CON = 4"
definition TSADC_INT_EN :: int where "TSADC_INT_EN = 8"
definition TSADC_INT_PD :: int where "TSADC_INT_PD = 12"
definition TSADC_DATA :: "int \<Rightarrow> int" where "TSADC_DATA chn = 44 + chn * 4"
definition TSADC_COMP_INT :: "int \<Rightarrow> int" where "TSADC_COMP_INT chn = 48 + chn * 4"
definition TSADC_DATA_MASK :: int where "TSADC_DATA_MASK = 4095"
definition TSADC_MAX_CHANNELS :: int where "TSADC_MAX_CHANNELS = 8"
definition TSADC_AUTO_CON_START :: int where "TSADC_AUTO_CON_START = 1"

definition BIT :: "int \<Rightarrow> int" where
  "BIT n = push_bit (nat n) 1"

definition TSADC_AUTO_CON_SRC_EN :: "int \<Rightarrow> int" where
  "TSADC_AUTO_CON_SRC_EN chn = BIT (4 + chn)"
definition TSADC_INT_SRC_EN :: "int \<Rightarrow> int" where
  "TSADC_INT_SRC_EN chn = BIT chn"
definition TSADC_INT_SRC_MASK :: "int \<Rightarrow> int" where
  "TSADC_INT_SRC_MASK chn = BIT chn"

definition POLLIN :: int where "POLLIN = 1"
definition POLLRDNORM :: int where "POLLRDNORM = 64"

text \<open>
  What the driver does to the world outside its own structure, in order: register reads
  (offset, value read), register writes (value, offset), wake-ups of the wait queue (with
  the threads then on it), and the calls that release a resource.
\<close>

datatype event =
    Readl int int
  | Writel int int
  | Wake_Up "nat list"
  | Call string

text \<open>
  \<open>struct tsadc_dev\<close>. The field \<open>regs\<close> stands for the hardware behind the mapped
  registers: the value a read at each offset returns. The field \<open>waitq\<close> holds the threads
  that \<open>poll_wait\<close> has put on the wait queue, and \<open>events\<close> the trace so far.
\<close>

record tsadc_dev =
  regs :: "int \<Rightarrow> int"
  current_channel :: int
  int_threshold_temp :: int
  irq_fired :: bool
  waitq :: "nat list"
  events :: "event list"

definition readl_relaxed :: "tsadc_dev \<Rightarrow> int \<Rightarrow> int \<times> tsadc_dev" where
  "readl_relaxed dev off =
    (u32 (regs dev off), dev\<lparr>events := events dev @ [Readl off (u32 (regs dev off))]\<rparr>)"

definition writel_relaxed :: "int \<Rightarrow> int \<Rightarrow> tsadc_dev \<Rightarrow> tsadc_dev" where
  "writel_relaxed v off dev = dev\<lparr>events := events dev @ [Writel (u32 v) off]\<rparr>"

definition wake_up_interruptible :: "tsadc_dev \<Rightarrow> tsadc_dev" where
  "wake_up_interruptible dev = dev\<lparr>events := events dev @ [Wake_Up (waitq dev)]\<rparr>"

definition poll_wait :: "nat \<Rightarrow> tsadc_dev \<Rightarrow> tsadc_dev" where
  "poll_wait tid dev = dev\<lparr>waitq := waitq dev @ [tid]\<rparr>"

text \<open>The threads some wake-up of the trace has released.\<close>

fun woken :: "event list \<Rightarrow> nat list" where
  "woken [] = []"
| "woken (Wake_Up ts # es) = ts @ woken es"
| "woken (_ # es) = woken es"

text \<open>
  The state \<open>tsadc_char_init\<close> leaves in the default build when every step succeeds:
  a zeroed structure, channel 0, threshold 85, and the two writes that start the
  conversion.
\<close>

definition tsadc_char_init :: "(int \<Rightarrow> int) \<Rightarrow> tsadc_dev" where
  "tsadc_char_init hw =
    writel_relaxed (TSADC_AUTO_CON_START OR TSADC_AUTO_CON_SRC_EN 0) TSADC_AUTO_CON
      (writel_relaxed (TSADC_AUTO_CON_SRC_EN 0) TSADC_AUTO_CON
        \<lparr>regs = hw, current_channel = 0, int_threshold_temp = 85, irq_fired = False,
         waitq = [], events = []\<rparr>)"

section \<open>File operations (day2/tsadc.c)\<close>

text \<open>\<open>sprintf(kbuf, "%d\n", temp_c)\<close>.\<close>

definition digit :: "nat \<Rightarrow> char" where
  "digit d = ''0123456789'' ! d"

fun decimal :: "nat \<Rightarrow> string" where
  "decimal n = (if n < 10 then [digit n] else decimal (n div 10) @ [digit (n mod 10)])"

declare decimal.simps [simp del]

definition sprintf_d_nl :: "int \<Rightarrow> string" where
  "sprintf_d_nl t =
    (if t < 0 then CHR ''-'' # decimal (nat (- t)) else decimal (nat t)) @ [CHR 0x0A]"

text \<open>
  \<open>my_read\<close>: \<open>writable\<close> says whether \<open>copy_to_user\<close> to \<open>buf\<close> succeeds. The result is
  the return value (the bytes copied out on success, so that their number is the value
  returned), the file offset afterwards, and the device.
\<close>

definition my_read ::
  "tsadc_dev \<Rightarrow> bool \<Rightarrow> int \<Rightarrow> int \<Rightarrow> ((error + string) \<times> int \<times> tsadc_dev) option" where
  "my_read dev writable len off =
    (if off > 0 \<or> len < 12 then Some (Inr [], off, dev)
     else
       (let (v, dev1) = readl_relaxed dev (TSADC_DATA (current_channel dev));
            raw_val = v AND TSADC_DATA_MASK
        in case code_to_temp raw_val of
             None \<Rightarrow> None
           | Some ret \<Rightarrow>
               (case (case ret of
                        Inl e \<Rightarrow> if e = EAGAIN then Inr (- 40) else Inl e
                      | Inr t \<Rightarrow> Inr t) of
                  Inl e \<Rightarrow> Some (Inl e, off, dev1)
                | Inr temp_c \<Rightarrow>
                    (let kbuf = sprintf_d_nl temp_c
                     in if \<not> writable then Some (Inl EFAULT, off, dev1)
                        else Some (Inr kbuf, off + int (length kbuf), dev1)))))"

datatype ioctl_cmd =
  TSADC_SET_CHANNEL | TSADC_GET_CHANNEL | TSADC_SET_INT_THRESHOLD | Other_Cmd

text \<open>
  The \<open>int\<close> in user memory that \<open>arg\<close> points to: \<open>Bad_Address\<close> when the copy from or
  to it fails.
\<close>

datatype user_int = Bad_Address | User_Int int

text \<open>
  \<open>my_ioctl\<close>: the result is the return value, the user memory at \<open>arg\<close> afterwards,
  and the device.
\<close>

definition my_ioctl ::
  "tsadc_dev \<Rightarrow> ioctl_cmd \<Rightarrow> user_int \<Rightarrow> (error + int) \<times> user_int \<times> tsadc_dev" where
  "my_ioctl dev cmd arg =
    (case cmd of
       TSADC_SET_CHANNEL \<Rightarrow>
         (case arg of
            Bad_Address \<Rightarrow> (Inl EFAULT, arg, dev)
          | User_Int channel \<Rightarrow>
              if channel < 0 \<or> channel \<ge> TSADC_MAX_CHANNELS then (Inl EINVAL, arg, dev)
              else (Inr 0, arg, dev\<lparr>current_channel := channel\<rparr>))
     | TSADC_GET_CHANNEL \<Rightarrow>
         (case arg of
            Bad_Address \<Rightarrow> (Inl EFAULT, arg, dev)
          | User_Int _ \<Rightarrow> (Inr 0, User_Int (current_channel dev), dev))
     | TSADC_SET_INT_THRESHOLD \<Rightarrow>
         (case arg of
            Bad_Address \<Rightarrow> (Inl EFAULT, arg, dev)
          | User_Int t \<Rightarrow>
              (let dev1 = dev\<lparr>int_threshold_temp := t\<rparr>
               in case temp_to_code t of
                    Inl e \<Rightarrow> (Inl e, arg, dev1)
                  | Inr c \<Rightarrow>
                      (Inr 0, arg,
                       writel_relaxed (TSADC_INT_SRC_EN (current_channel dev1)) TSADC_INT_EN
                         (writel_relaxed c (TSADC_COMP_INT (current_channel dev1)) dev1))))
     | Other_Cmd \<Rightarrow> (Inl ENOTTY, arg, dev))"

text \<open>\<open>my_poll\<close>, called by thread \<open>tid\<close>: the result is the mask and the device.\<close>

definition my_poll :: "nat \<Rightarrow> tsadc_dev \<Rightarrow> int \<times> tsadc_dev" where
  "my_poll tid dev =
    (let dev1 = poll_wait tid dev
     in if irq_fired dev1 then (POLLIN OR POLLRDNORM, dev1\<lparr>irq_fired := False\<rparr>)
        else (0, dev1))"

section \<open>Interrupt handler and module exit (day2/tsadc.c)\<close>

datatype irqreturn = IRQ_NONE | IRQ_HANDLED

definition tsadc_isr :: "tsadc_dev \<Rightarrow> irqreturn \<times> tsadc_dev" where
  "tsadc_isr dev =
    (let (val, dev1) = readl_relaxed dev TSADC_INT_PD;
         dev2 = writel_relaxed val TSADC_INT_PD dev1
     in if val AND TSADC_INT_SRC_MASK (current_channel dev2) \<noteq> 0
        then (IRQ_HANDLED, wake_up_interruptible (dev2\<lparr>irq_fired := True\<rparr>))
        else (IRQ_HANDLED, dev2))"

definition tsadc_char_exit :: "tsadc_dev \<Rightarrow> tsadc_dev" where
  "tsadc_char_exit dev =
    (let dev1 = writel_relaxed 0 TSADC_AUTO_CON dev;
         dev2 = writel_relaxed 0 TSADC_INT_EN dev1
     in dev2\<lparr>events := events dev2 @
          [Call ''reset_control_assert'', Call ''clk_disable_unprepare'',
           Call ''free_irq'', Call ''reset_control_put'', Call ''clk_put'', Call ''iounmap'',
           Call ''cdev_del'', Call ''device_destroy'', Call ''class_destroy'',
           Call ''unregister_chrdev_region'', Call ''kfree'']\<rparr>)"

section \<open>The thermal-zone callback (day2/tsadc_platform.c)\<close>

definition TSADC_DATA_platform :: "int \<Rightarrow> int" where
  "TSADC_DATA_platform chn = 32 + chn * 4"

record rk3588_tsadc_chip =
  chip_regs :: "int \<Rightarrow> int"
  chip_id :: int

definition rk3588_tsadc_get_temp :: "rk3588_tsadc_chip \<Rightarrow> (error + int) option" where
  "rk3588_tsadc_get_temp chip =
    (let raw_val = s32 (u32 (chip_regs chip (TSADC_DATA_platform (chip_id chip))));
         raw_val = raw_val AND TSADC_DATA_MASK
     in case rk3588_tsadc_code_to_temp rk3588_code_table_platform raw_val of
          None \<Rightarrow> None
        | Some ret \<Rightarrow>
            (case ret of
               Inl e \<Rightarrow> if e = EAGAIN then Some (Inr (- 40000)) else Some (Inl e)
             | Inr t \<Rightarrow> Some (Inr t)))"

section \<open>Well-formed calibration tables\<close>

text \<open>Codes strictly descending along the table, as in both tables of the source.\<close>

definition descending_codes :: "tsadc_table list \<Rightarrow> bool" where
  "descending_codes table = sorted_wrt (\<lambda>a b. code b < code a) table"

text \<open>Temperatures strictly descending along the table, as in the table of \<open>tsadc.c\<close>.\<close>

definition descending_temps :: "tsadc_table list \<Rightarrow> bool" where
  "descending_temps table = sorted_wrt (\<lambda>a b. temp b < temp a) table"

text \<open>Every temperature and code of the table is a 16-bit signed value.\<close>

definition fits16 :: "tsadc_table list \<Rightarrow> bool" where
  "fits16 table =
    list_all (\<lambda>e. - 32768 \<le> temp e \<and> temp e < 32768 \<and> - 32768 \<le> code e \<and> code e < 32768) table"

section \<open>Hardware for the examples\<close>

text \<open>Registers that all read as the same value.\<close>

definition constant_hw :: "int \<Rightarrow> int \<Rightarrow> int" where
  "constant_hw v off = v"

section \<open>Arithmetic of the machine integers\<close>

lemma u32_id: "0 \<le> x \<Longrightarrow> x < 4294967296 \<Longrightarrow> u32 x = x"
  by (simp add: u32_def)

lemma s32_id: "- 2147483648 \<le> x \<Longrightarrow> x < 2147483648 \<Longrightarrow> s32 x = x"
proof (cases "0 \<le> x")
  case True
  assume "x < 2147483648"
  with True show ?thesis by (simp add: s32_def u32_def)
next
  case False
  assume lo: "- 2147483648 \<le> x"
  have "(x + 4294967296) mod 4294967296 = x + 4294967296"
    using False lo by (intro mod_pos_pos_trivial) auto
  then have "x mod 4294967296 = x + 4294967296" by simp
  with False lo show ?thesis by (simp add: s32_def u32_def)
qed

lemma s32_add_u32: "s32 (a + u32 b) = s32 (a + b)"
  by (simp add: s32_def u32_def mod_add_right_eq)

section \<open>The binary search\<close>

lemma table_at_inside:
  "0 \<le> i \<Longrightarrow> i < int (length table) \<Longrightarrow> table_at table i = Inr (table ! nat i)"
  by (simp add: table_at_def)

lemma descending_adjacent:
  assumes "descending_codes table" "1 \<le> m" "m < int (length table)"
  shows "code (table ! nat m) < code (table ! nat (m - 1))"
proof -
  have "nat (m - 1) < nat m" "nat m < length table" using assms by auto
  with assms(1) show ?thesis
    unfolding descending_codes_def by (rule sorted_wrt_nth_less)
qed

text \<open>
  The loop invariant: \<open>1 \<le> low \<le> high \<le> last\<close> and
  \<open>table[high].code \<le> code \<le> table[low - 1].code\<close>. Under it no index expression
  wraps, every access is inside the table, and the loop leaves by \<open>break\<close>: the two
  assignments keep the bounds strict, which rules out \<open>low > high\<close>.
\<close>

lemma search_loop_finds:
  assumes len: "int (length table) \<le> 2147483648"
    and desc: "descending_codes table"
  shows "1 \<le> low \<Longrightarrow> low \<le> high \<Longrightarrow> high < int (length table) \<Longrightarrow>
     code (table ! nat high) \<le> c \<Longrightarrow> c \<le> code (table ! nat (low - 1)) \<Longrightarrow>
     \<exists>m. search_loop table c low high mid = Some (Inr (Found m)) \<and> low \<le> m \<and> m \<le> high
       \<and> code (table ! nat m) \<le> c \<and> c \<le> code (table ! nat (m - 1))"
proof (induction "nat (high - low)" arbitrary: low high mid rule: less_induct)
  case less
  define m where "m = (low + high) div 2"
  have m_lo: "low \<le> m" and m_hi: "m \<le> high"
    using less.prems by (auto simp: m_def)
  have sum: "u32 (low + high) = low + high"
    using less.prems len by (intro u32_id) auto
  have at_m: "table_at table m = Inr (table ! nat m)"
    using less.prems m_lo m_hi by (intro table_at_inside) auto
  have pred: "u32 (m - 1) = m - 1"
    using less.prems m_lo m_hi len by (intro u32_id) auto
  have succ: "u32 (m + 1) = m + 1"
    using less.prems m_lo m_hi len by (intro u32_id) auto
  have at_p: "table_at table (m - 1) = Inr (table ! nat (m - 1))"
    using less.prems m_lo m_hi by (intro table_at_inside) auto
  have adj: "code (table ! nat m) < code (table ! nat (m - 1))"
    using less.prems m_lo m_hi by (intro descending_adjacent [OF desc]) auto
  consider (hit) "code (table ! nat m) \<le> c" "c \<le> code (table ! nat (m - 1))"
    | (above) "code (table ! nat (m - 1)) < c"
    | (below) "c < code (table ! nat m)"
    by linarith
  then show ?case
  proof cases
    case hit
    then have "search_loop table c low high mid = Some (Inr (Found m))"
      by (subst search_loop.simps)
         (simp add: less.prems sum m_def [symmetric] in_interval_def at_m at_p pred)
    with hit m_lo m_hi show ?thesis by simp
  next
    case above
    have gt: "code (table ! nat m) < c" using above adj by simp
    have low_lt: "low \<le> m - 1"
    proof (rule ccontr)
      assume "\<not> low \<le> m - 1"
      then have "m = low" using m_lo by simp
      then show False using above less.prems by simp
    qed
    have step: "search_loop table c low high mid = search_loop table c low (m - 1) (Some m)"
      using above gt
      by (subst search_loop.simps)
         (simp add: less.prems sum m_def [symmetric] in_interval_def at_m at_p pred)
    have "\<exists>k. search_loop table c low (m - 1) (Some m) = Some (Inr (Found k)) \<and> low \<le> k
        \<and> k \<le> m - 1 \<and> code (table ! nat k) \<le> c \<and> c \<le> code (table ! nat (k - 1))"
      using less.prems m_hi low_lt above
      by (intro less.hyps) auto
    then show ?thesis using step m_hi by auto
  next
    case below
    have m_lt: "m + 1 \<le> high"
    proof (rule ccontr)
      assume "\<not> m + 1 \<le> high"
      then have "m = high" using m_hi by simp
      then show False using below less.prems by simp
    qed
    have step: "search_loop table c low high mid = search_loop table c (m + 1) high (Some m)"
      using below
      by (subst search_loop.simps)
         (simp add: less.prems sum m_def [symmetric] in_interval_def at_m succ)
    have "\<exists>k. search_loop table c (m + 1) high (Some m) = Some (Inr (Found k)) \<and> m + 1 \<le> k
        \<and> k \<le> high \<and> code (table ! nat k) \<le> c \<and> c \<le> code (table ! nat (k - 1))"
      using less.prems m_lo m_lt below
      by (intro less.hyps) auto
    then show ?thesis using step m_lo by auto
  qed
qed

text \<open>
  The whole conversion on a code inside the table's range: both range checks pass, the
  loop breaks at some \<open>mid\<close> in \<open>[1, last]\<close>, and the result is the interpolation
  between \<open>table[mid - 1]\<close> and \<open>table[mid]\<close>.
\<close>

lemma convert_in_range:
  assumes n: "2 \<le> length table" and len: "int (length table) \<le> 2147483648"
    and desc: "descending_codes table"
    and lo: "code (table ! (length table - 1)) \<le> c" and hi: "c \<le> code (table ! 0)"
  shows "\<exists>m. search_loop table c 1 (last_index table) None = Some (Inr (Found m))
      \<and> 1 \<le> m \<and> m \<le> int (length table) - 1
      \<and> code (table ! nat m) \<le> c \<and> c \<le> code (table ! nat (m - 1))
      \<and> table_at table m = Inr (table ! nat m)
      \<and> table_at table (u32 (m - 1)) = Inr (table ! nat (m - 1))
      \<and> convert interp table (last_index table) c
          = Some (interp (table ! nat (m - 1)) (table ! nat m) c)"
proof -
  have last: "last_index table = int (length table) - 1"
    unfolding last_index_def using n len by (intro u32_id) auto
  have nat_last: "nat (int (length table) - 1) = length table - 1"
    using n by auto
  have "\<exists>m. search_loop table c 1 (int (length table) - 1) None = Some (Inr (Found m))
      \<and> 1 \<le> m \<and> m \<le> int (length table) - 1
      \<and> code (table ! nat m) \<le> c \<and> c \<le> code (table ! nat (m - 1))"
    using n lo hi by (intro search_loop_finds [OF len desc]) (auto simp: nat_last)
  then obtain m where m: "search_loop table c 1 (int (length table) - 1) None = Some (Inr (Found m))"
      "1 \<le> m" "m \<le> int (length table) - 1"
      "code (table ! nat m) \<le> c" "c \<le> code (table ! nat (m - 1))"
    by blast
  have ne: "table \<noteq> []"
    using n by auto
  have at_0: "table_at table 0 = Inr (table ! 0)"
    using ne by (simp add: table_at_def)
  have at_last: "table_at table (int (length table) - 1) = Inr (table ! (length table - 1))"
    using ne by (simp add: table_at_def nat_last)
  have at_m: "table_at table m = Inr (table ! nat m)"
    using m by (intro table_at_inside) auto
  have pred: "u32 (m - 1) = m - 1"
    using m len by (intro u32_id) auto
  have at_p: "table_at table (m - 1) = Inr (table ! nat (m - 1))"
    using m by (intro table_at_inside) auto
  have "convert interp table (int (length table) - 1) c
      = Some (interp (table ! nat (m - 1)) (table ! nat m) c)"
    using lo hi by (simp add: convert_def at_0 at_last m(1) mid_after_def pred at_p at_m)
  with m at_m at_p pred show ?thesis
    unfolding last by auto
qed

lemma convert_not_ready:
  assumes "table \<noteq> []" and "code (table ! 0) < c"
  shows "convert interp table high c = Some (Inl EAGAIN)"
  using assms by (simp add: convert_def table_at_def)

section \<open>The interpolation of \<open>tsadc.c\<close>\<close>

text \<open>
  With \<open>table[mid].temp \<le> table[mid - 1].temp\<close> and 16-bit table values, no unsigned
  operation of the interpolation wraps and the quotient is the integer quotient of two
  non-negative numbers.
\<close>

lemma interpolate_linear:
  assumes d: "code em < code ep" and n: "temp em \<le> temp ep"
    and c: "code em \<le> c" "c \<le> code ep"
    and b: "- 32768 \<le> temp em" "temp ep < 32768" "- 32768 \<le> code em" "code ep < 32768"
  shows "interpolate ep em c =
    Inr (temp em + (c - code em) * (temp ep - temp em) div (code ep - code em))"
proof -
  let ?d = "code ep - code em" and ?n = "temp ep - temp em" and ?x = "c - code em"
  have d': "0 < ?d" "?d \<le> 65535" and n': "0 \<le> ?n" "?n \<le> 65535" and x': "0 \<le> ?x" "?x \<le> ?d"
    using assms by auto
  have "?x * ?n \<le> 65535 * 65535"
    using d' n' x' by (intro mult_mono) auto
  then have prod: "0 \<le> ?x * ?n" "?x * ?n < 4294967296"
    using n' x' by auto
  have "?x * ?n \<le> ?d * ?n" using x' n' by (intro mult_right_mono) auto
  then have "?x * ?n div ?d \<le> ?d * ?n div ?d" by (rule zdiv_mono1) (use d' in simp)
  then have q_hi: "?x * ?n div ?d \<le> ?n" using d' by simp
  have q_lo: "0 \<le> ?x * ?n div ?d" using prod d' by (simp add: pos_imp_zdiv_nonneg_iff)
  have "s32 (?x * ?n div ?d + u32 (temp em)) = ?x * ?n div ?d + temp em"
    unfolding s32_add_u32 using q_lo q_hi b n by (intro s32_id) auto
  moreover have "u32 ?d = ?d" "u32 ?n = ?n" "u32 ?x = ?x" "u32 (?x * ?n) = ?x * ?n"
    using d' n' x' prod by (auto intro!: u32_id)
  ultimately show ?thesis
    using d' by (simp add: interpolate_def Let_def)
qed

lemma fits16_nth:
  "fits16 table \<Longrightarrow> i < length table \<Longrightarrow>
    - 32768 \<le> temp (table ! i) \<and> temp (table ! i) < 32768
      \<and> - 32768 \<le> code (table ! i) \<and> code (table ! i) < 32768"
  by (simp add: fits16_def list_all_length)

lemma descending_temps_adjacent:
  assumes "descending_temps table" "1 \<le> m" "m < int (length table)"
  shows "temp (table ! nat m) < temp (table ! nat (m - 1))"
proof -
  have "nat (m - 1) < nat m" "nat m < length table" using assms by auto
  with assms(1) show ?thesis
    unfolding descending_temps_def by (rule sorted_wrt_nth_less)
qed

lemma default_table_wellformed:
  "descending_codes rk3588_code_table \<and> descending_temps rk3588_code_table
    \<and> fits16 rk3588_code_table \<and> length rk3588_code_table = 4"
  by (simp add: descending_codes_def descending_temps_def fits16_def rk3588_code_table_def
      entry_def)

lemma platform_table_wellformed:
  "descending_codes rk3588_code_table_platform \<and> fits16 rk3588_code_table_platform
    \<and> length rk3588_code_table_platform = 16"
  by (simp add: descending_codes_def fits16_def rk3588_code_table_platform_def entry_def)

text \<open>
  A table with strictly descending 16-bit codes has at most \<open>2^16\<close> entries, so its
  indices never make \<open>low + high\<close> wrap.
\<close>

lemma fits16_length:
  assumes "descending_codes table" "fits16 table"
  shows "int (length table) \<le> 2147483648"
proof -
  have "sorted_wrt (<) (rev (map code table))"
    using assms(1) by (simp add: descending_codes_def sorted_wrt_rev sorted_wrt_map)
  then have "distinct (map code table)"
    using strict_sorted_iff [of "rev (map code table)"] by simp
  then have "card (set (map code table)) = length table"
    using distinct_card [of "map code table"] by simp
  moreover have "set (map code table) \<subseteq> {- 32768 ..< 32768}"
    using assms(2) by (auto simp: fits16_def list_all_iff)
  then have "card (set (map code table)) \<le> card {- 32768 ..< (32768 :: int)}"
    by (intro card_mono) auto
  ultimately show ?thesis by simp
qed

section \<open>Claims about the conversion from code to temperature\<close>

text \<open>
  C10. Precondition: at least two entries, codes strictly descending, and
  \<open>table[last].code \<le> code \<le> table[0].code\<close>. Then the loop of \<open>code_to_temp\<close> (and
  of \<open>rk3588_tsadc_code_to_temp\<close>, which has the same loop) ends by \<open>break\<close> at some
  \<open>mid\<close> with \<open>1 \<le> mid \<le> last\<close>, so \<open>mid\<close> is assigned when it is read after the loop;
  \<open>table[mid]\<close> and \<open>table[mid - 1]\<close> are entries of the table that bracket the code; and
  the conversion returns the interpolation between these two entries, so no access of the
  run is outside the table. The bound on the length is what makes \<open>low + high\<close> fit an
  \<open>unsigned int\<close>.
\<close>

theorem C10_search_breaks_in_bounds:
  assumes "2 \<le> length table" and "int (length table) \<le> 2147483648"
    and "descending_codes table"
    and "code (table ! (length table - 1)) \<le> c" and "c \<le> code (table ! 0)"
  shows "\<exists>mid. search_loop table c 1 (last_index table) None = Some (Inr (Found mid))
      \<and> 1 \<le> mid \<and> mid \<le> int (length table) - 1
      \<and> table_at table mid = Inr (table ! nat mid)
      \<and> table_at table (u32 (mid - 1)) = Inr (table ! nat (mid - 1))
      \<and> code (table ! nat mid) \<le> c \<and> c \<le> code (table ! nat (mid - 1))
      \<and> convert interp table (last_index table) c
          = Some (interp (table ! nat (mid - 1)) (table ! nat mid) c)"
  using convert_in_range [OF assms, of interp] by blast

theorem C10_witness:
  "2 \<le> length rk3588_code_table \<and> int (length rk3588_code_table) \<le> 2147483648
    \<and> descending_codes rk3588_code_table
    \<and> code (rk3588_code_table ! (length rk3588_code_table - 1)) \<le> 320
    \<and> 320 \<le> code (rk3588_code_table ! 0)
    \<and> search_loop rk3588_code_table 320 1 (last_index rk3588_code_table) None
        = Some (Inr (Found 2))
    \<and> code_to_temp 320
        = Some (interpolate (rk3588_code_table ! 1) (rk3588_code_table ! 2) 320)
    \<and> 2 \<le> length rk3588_code_table_platform
    \<and> int (length rk3588_code_table_platform) \<le> 2147483648
    \<and> descending_codes rk3588_code_table_platform
    \<and> code (rk3588_code_table_platform ! (length rk3588_code_table_platform - 1)) \<le> 3700
    \<and> 3700 \<le> code (rk3588_code_table_platform ! 0)
    \<and> search_loop rk3588_code_table_platform 3700 1
          (last_index rk3588_code_table_platform) None = Some (Inr (Found 1))
    \<and> rk3588_tsadc_code_to_temp rk3588_code_table_platform 3700
        = Some (interpolate_platform (rk3588_code_table_platform ! 0)
                  (rk3588_code_table_platform ! 1) 3700)"
proof -
  have h1: "2 \<le> length rk3588_code_table"
    and h2: "int (length rk3588_code_table) \<le> 2147483648"
    and h3: "descending_codes rk3588_code_table"
    using default_table_wellformed by simp_all
  have h4: "code (rk3588_code_table ! (length rk3588_code_table - 1)) \<le> 320"
    and h5: "320 \<le> code (rk3588_code_table ! 0)"
    by (simp_all add: rk3588_code_table_def entry_def)
  have run: "search_loop rk3588_code_table 320 1 (last_index rk3588_code_table) None
      = Some (Inr (Found 2))"
    by code_simp
  from C10_search_breaks_in_bounds [OF h1 h2 h3 h4 h5, of interpolate]
  obtain mid where "search_loop rk3588_code_table 320 1 (last_index rk3588_code_table) None
        = Some (Inr (Found mid))"
    and conv: "convert interpolate rk3588_code_table (last_index rk3588_code_table) 320
        = Some (interpolate (rk3588_code_table ! nat (mid - 1)) (rk3588_code_table ! nat mid) 320)"
    by blast
  with run have "mid = 2" by simp
  with conv have char: "code_to_temp 320
        = Some (interpolate (rk3588_code_table ! 1) (rk3588_code_table ! 2) 320)"
    by (simp add: code_to_temp_def code_to_temp_on_def)
  have p1: "2 \<le> length rk3588_code_table_platform"
    and p2: "int (length rk3588_code_table_platform) \<le> 2147483648"
    and p3: "descending_codes rk3588_code_table_platform"
    using platform_table_wellformed by simp_all
  have p4: "code (rk3588_code_table_platform ! (length rk3588_code_table_platform - 1)) \<le> 3700"
    and p5: "3700 \<le> code (rk3588_code_table_platform ! 0)"
    by (simp_all add: rk3588_code_table_platform_def entry_def)
  have prun: "search_loop rk3588_code_table_platform 3700 1
      (last_index rk3588_code_table_platform) None = Some (Inr (Found 1))"
    by code_simp
  from C10_search_breaks_in_bounds [OF p1 p2 p3 p4 p5, of interpolate_platform]
  obtain pmid where "search_loop rk3588_code_table_platform 3700 1
        (last_index rk3588_code_table_platform) None = Some (Inr (Found pmid))"
    and pconv: "convert interpolate_platform rk3588_code_table_platform
          (last_index rk3588_code_table_platform) 3700
        = Some (interpolate_platform (rk3588_code_table_platform ! nat (pmid - 1))
                  (rk3588_code_table_platform ! nat pmid) 3700)"
    by blast
  with prun have "pmid = 1" by simp
  with pconv have plat: "rk3588_tsadc_code_to_temp rk3588_code_table_platform 3700
        = Some (interpolate_platform (rk3588_code_table_platform ! 0)
                  (rk3588_code_table_platform ! 1) 3700)"
    by (simp add: rk3588_tsadc_code_to_temp_def)
  from h1 h2 h3 h4 h5 run char p1 p2 p3 p4 p5 prun plat show ?thesis
    by blast
qed

text \<open>
  The conversion of \<open>tsadc.c\<close> on a table whose codes and temperatures both descend:
  the result is the integer interpolation between the two entries the search stops at.
\<close>

lemma code_to_temp_on_linear:
  assumes "2 \<le> length table" and "descending_codes table" and "descending_temps table"
    and "fits16 table"
    and "code (table ! (length table - 1)) \<le> c" and "c \<le> code (table ! 0)"
  shows "\<exists>mid. search_loop table c 1 (last_index table) None = Some (Inr (Found mid))
      \<and> 1 \<le> mid \<and> mid \<le> int (length table) - 1
      \<and> code (table ! nat mid) \<le> c \<and> c \<le> code (table ! nat (mid - 1))
      \<and> code_to_temp_on table c =
          Some (Inr (temp (table ! nat mid)
            + (c - code (table ! nat mid))
              * (temp (table ! nat (mid - 1)) - temp (table ! nat mid))
              div (code (table ! nat (mid - 1)) - code (table ! nat mid))))"
proof -
  have len: "int (length table) \<le> 2147483648"
    using assms(2,4) by (rule fits16_length)
  from convert_in_range [OF assms(1) len assms(2) assms(5) assms(6), of interpolate]
  obtain mid where run: "search_loop table c 1 (last_index table) None = Some (Inr (Found mid))"
    and mid: "1 \<le> mid" "mid \<le> int (length table) - 1"
    and br: "code (table ! nat mid) \<le> c" "c \<le> code (table ! nat (mid - 1))"
    and conv: "convert interpolate table (last_index table) c
        = Some (interpolate (table ! nat (mid - 1)) (table ! nat mid) c)"
    by blast
  have d: "code (table ! nat mid) < code (table ! nat (mid - 1))"
    using mid by (intro descending_adjacent [OF assms(2)]) auto
  have n: "temp (table ! nat mid) < temp (table ! nat (mid - 1))"
    using mid by (intro descending_temps_adjacent [OF assms(3)]) auto
  have b1: "- 32768 \<le> temp (table ! nat mid)" "- 32768 \<le> code (table ! nat mid)"
    using fits16_nth [OF assms(4), of "nat mid"] mid by auto
  have b2: "temp (table ! nat (mid - 1)) < 32768" "code (table ! nat (mid - 1)) < 32768"
    using fits16_nth [OF assms(4), of "nat (mid - 1)"] mid by auto
  have "interpolate (table ! nat (mid - 1)) (table ! nat mid) c =
      Inr (temp (table ! nat mid)
        + (c - code (table ! nat mid))
          * (temp (table ! nat (mid - 1)) - temp (table ! nat mid))
          div (code (table ! nat (mid - 1)) - code (table ! nat mid)))"
    using d n br b1 b2 by (intro interpolate_linear) auto
  with conv run mid br show ?thesis
    unfolding code_to_temp_on_def by auto
qed

text \<open>
  C1, as amended. For every table with at least two entries whose codes and temperatures
  both descend strictly along the table (the direction of the table of \<open>tsadc.c\<close>) and
  are 16-bit values, and every code with \<open>table[last].code \<le> code \<le> table[0].code\<close>,
  \<open>code_to_temp\<close> finds by binary search an index \<open>mid\<close> in \<open>[1, last]\<close> with
  \<open>table[mid].code \<le> code \<le> table[mid - 1].code\<close> and returns success with
  \<open>temp_lo + (code - code_lo) * (temp_hi - temp_lo) / (code_hi - code_lo)\<close>, where
  \<open>lo\<close> is \<open>table[mid]\<close> and \<open>hi\<close> is \<open>table[mid - 1]\<close>. All operands of the division are
  non-negative, so \<open>div\<close> is the truncating division of C. Which of the two intervals
  around an interior boundary code is taken is whatever the search probes first; the
  theorem only says that the interval contains the code.
\<close>

theorem C1_code_to_temp_interpolates:
  assumes "2 \<le> length table" and "descending_codes table" and "descending_temps table"
    and "fits16 table"
    and "code (table ! (length table - 1)) \<le> c" and "c \<le> code (table ! 0)"
  shows "\<exists>mid. search_loop table c 1 (last_index table) None = Some (Inr (Found mid))
      \<and> 1 \<le> mid \<and> mid \<le> int (length table) - 1
      \<and> code (table ! nat mid) \<le> c \<and> c \<le> code (table ! nat (mid - 1))
      \<and> code_to_temp_on table c =
          Some (Inr (temp (table ! nat mid)
            + (c - code (table ! nat mid))
              * (temp (table ! nat (mid - 1)) - temp (table ! nat mid))
              div (code (table ! nat (mid - 1)) - code (table ! nat mid))))"
  using code_to_temp_on_linear [OF assms] .

theorem C1_witness:
  "2 \<le> length rk3588_code_table \<and> descending_codes rk3588_code_table
    \<and> descending_temps rk3588_code_table \<and> fits16 rk3588_code_table
    \<and> code (rk3588_code_table ! (length rk3588_code_table - 1)) \<le> 320
    \<and> 320 \<le> code (rk3588_code_table ! 0)
    \<and> search_loop rk3588_code_table 320 1 (last_index rk3588_code_table) None
        = Some (Inr (Found 2))
    \<and> code_to_temp 320 = Some (Inr (25 + (320 - 285) * (85 - 25) div (350 - 285)))
    \<and> code_to_temp 320 = Some (Inr 57)"
proof -
  have h1: "2 \<le> length rk3588_code_table"
    and h2: "descending_codes rk3588_code_table"
    and h3: "descending_temps rk3588_code_table"
    and h4: "fits16 rk3588_code_table"
    using default_table_wellformed by simp_all
  have h5: "code (rk3588_code_table ! (length rk3588_code_table - 1)) \<le> 320"
    and h6: "320 \<le> code (rk3588_code_table ! 0)"
    by (simp_all add: rk3588_code_table_def entry_def)
  have run: "search_loop rk3588_code_table 320 1 (last_index rk3588_code_table) None
      = Some (Inr (Found 2))"
    by code_simp
  from C1_code_to_temp_interpolates [OF h1 h2 h3 h4 h5 h6]
  obtain mid where "search_loop rk3588_code_table 320 1 (last_index rk3588_code_table) None
        = Some (Inr (Found mid))"
    and conv: "code_to_temp_on rk3588_code_table 320 =
          Some (Inr (temp (rk3588_code_table ! nat mid)
            + (320 - code (rk3588_code_table ! nat mid))
              * (temp (rk3588_code_table ! nat (mid - 1)) - temp (rk3588_code_table ! nat mid))
              div (code (rk3588_code_table ! nat (mid - 1))
                    - code (rk3588_code_table ! nat mid))))"
    by blast
  with run have "mid = 2" by simp
  with conv have "code_to_temp 320 = Some (Inr (25 + (320 - 285) * (85 - 25) div (350 - 285)))"
    by (simp add: code_to_temp_def rk3588_code_table_def entry_def)
  with h1 h2 h3 h4 h5 h6 run show ?thesis by simp
qed

text \<open>
  C1 as stated fails on the tie-break. In the table of \<open>tsadc.c\<close> the interior boundary
  codes are 350 (index 1) and 285 (index 2). For both the first probe is \<open>mid = 2\<close> and
  the loop breaks there, so both resolve to the interval between \<open>table[1]\<close> and
  \<open>table[2]\<close>. The code 285 is the code of \<open>table[2]\<close>, and the entry at the lower
  index of the chosen interval, \<open>table[1]\<close>, is not that boundary. (Read with "lower" as
  the end with the lower code, the rule fails for 350 instead: the lower-code end of the
  chosen interval is \<open>table[2]\<close>, with the code 285.)
\<close>

theorem C1_counterexample:
  "search_loop rk3588_code_table 285 1 (last_index rk3588_code_table) None
        = Some (Inr (Found 2))
    \<and> code (rk3588_code_table ! 2) = 285
    \<and> code (rk3588_code_table ! (2 - 1)) \<noteq> 285
    \<and> search_loop rk3588_code_table 350 1 (last_index rk3588_code_table) None
        = Some (Inr (Found 2))
    \<and> code (rk3588_code_table ! (2 - 1)) = 350
    \<and> code (rk3588_code_table ! 2) \<noteq> 350"
  by code_simp

text \<open>
  The direction of the table matters to the formula of C1: where the temperatures ascend
  while the codes descend (the table of \<open>tsadc_platform.c\<close>, and of \<open>tsadc.c\<close> under
  \<open>TRY_AI_BUG\<close>), \<open>num\<close> is a negative difference stored in a \<open>u32\<close> and the unsigned
  product and division do not compute the interpolation: between \<open>(-40, 3800)\<close> and
  \<open>(-30, 3630)\<close> the code 3700 should give a temperature between -40 and -30.
\<close>

lemma code_to_temp_ascending_temps_wraps:
  "code_to_temp_on rk3588_code_table_platform 3700 = Some (Inr 25264479)
    \<and> rk3588_tsadc_code_to_temp rk3588_code_table_platform 3700 = Some (Inr (- 25264549))"
  by code_simp

text \<open>
  C3, as amended. For every code strictly greater than \<open>table[0].code\<close> both variants of
  the conversion return \<open>-EAGAIN\<close> (NotReady) and produce no temperature.
\<close>

theorem C3_not_ready_above_first_code:
  assumes "table \<noteq> []" and "code (table ! 0) < c"
  shows "code_to_temp_on table c = Some (Inl EAGAIN)
    \<and> rk3588_tsadc_code_to_temp table c = Some (Inl EAGAIN)"
  using assms
  by (simp add: code_to_temp_on_def rk3588_tsadc_code_to_temp_def convert_not_ready)

theorem C3_witness:
  "rk3588_code_table \<noteq> [] \<and> code (rk3588_code_table ! 0) < 396
    \<and> code_to_temp_on rk3588_code_table 396 = Some (Inl EAGAIN)
    \<and> rk3588_tsadc_code_to_temp rk3588_code_table 396 = Some (Inl EAGAIN)"
proof -
  have h1: "rk3588_code_table \<noteq> []" and h2: "code (rk3588_code_table ! 0) < 396"
    by (simp_all add: rk3588_code_table_def entry_def)
  from C3_not_ready_above_first_code [OF h1 h2] h1 h2 show ?thesis by simp
qed

text \<open>
  C3 as stated fails at \<open>c = table[0].code\<close>: the test of the source is
  \<open>code > table[0].code\<close>, so the first code of the table is converted, to the first
  temperature of the table.
\<close>

theorem C3_counterexample:
  "code (rk3588_code_table ! 0) \<le> 395 \<and> code_to_temp 395 = Some (Inr 125)
    \<and> code_to_temp 395 \<noteq> Some (Inl EAGAIN)"
  by code_simp

text \<open>
  On the table of \<open>tsadc.c\<close> every code of an entry is converted to the temperature of
  that entry.
\<close>

lemma code_to_temp_exact_on_default_table:
  "code_to_temp 395 = Some (Inr 125) \<and> code_to_temp 350 = Some (Inr 85)
    \<and> code_to_temp 285 = Some (Inr 25) \<and> code_to_temp 215 = Some (Inr (- 40))"
  by code_simp

text \<open>
  The same for every table of that direction: the code of entry \<open>k\<close> is bracketed by an
  interval that has \<open>k\<close> at one of its ends, and the interpolation is exact at both ends.
\<close>

lemma code_to_temp_on_exact:
  assumes "2 \<le> length table" and "descending_codes table" and "descending_temps table"
    and "fits16 table" and k: "k < length table"
  shows "code_to_temp_on table (code (table ! k)) = Some (Inr (temp (table ! k)))"
proof -
  let ?c = "code (table ! k)"
  have sorted: "sorted_wrt (\<lambda>a b. code b < code a) table"
    using assms(2) by (simp add: descending_codes_def)
  have lo: "code (table ! (length table - 1)) \<le> ?c"
  proof (cases "k = length table - 1")
    case True
    then show ?thesis by simp
  next
    case False
    with k have "k < length table - 1" "length table - 1 < length table" by auto
    with sorted have "code (table ! (length table - 1)) < ?c"
      by (rule sorted_wrt_nth_less)
    then show ?thesis by simp
  qed
  have hi: "?c \<le> code (table ! 0)"
  proof (cases "k = 0")
    case True
    then show ?thesis by simp
  next
    case False
    with sorted k have "?c < code (table ! 0)"
      by (intro sorted_wrt_nth_less [where P = "\<lambda>a b. code b < code a"]) auto
    then show ?thesis by simp
  qed
  from code_to_temp_on_linear [OF assms(1-4) lo hi]
  obtain mid where mid: "1 \<le> mid" "mid \<le> int (length table) - 1"
    and br: "code (table ! nat mid) \<le> ?c" "?c \<le> code (table ! nat (mid - 1))"
    and conv: "code_to_temp_on table ?c =
          Some (Inr (temp (table ! nat mid)
            + (?c - code (table ! nat mid))
              * (temp (table ! nat (mid - 1)) - temp (table ! nat mid))
              div (code (table ! nat (mid - 1)) - code (table ! nat mid))))"
    by blast
  have d: "code (table ! nat mid) < code (table ! nat (mid - 1))"
    using mid by (intro descending_adjacent [OF assms(2)]) auto
  have not_above: "\<not> nat mid < k"
  proof
    assume "nat mid < k"
    with sorted k have "?c < code (table ! nat mid)"
      by (intro sorted_wrt_nth_less [where P = "\<lambda>a b. code b < code a"]) auto
    with br show False by simp
  qed
  have not_below: "\<not> k < nat (mid - 1)"
  proof
    assume "k < nat (mid - 1)"
    moreover have "nat (mid - 1) < length table" using mid by auto
    ultimately have "code (table ! nat (mid - 1)) < ?c"
      using sorted by (intro sorted_wrt_nth_less [where P = "\<lambda>a b. code b < code a"]) auto
    with br show False by simp
  qed
  have "k = nat mid \<or> k = nat (mid - 1)"
    using not_above not_below mid by auto
  then show ?thesis
  proof
    assume "k = nat mid"
    with conv show ?thesis by simp
  next
    assume "k = nat (mid - 1)"
    with conv d show ?thesis by simp
  qed
qed

text \<open>
  C2. The claim holds of \<open>code_to_temp\<close> in \<open>tsadc.c\<close> (the two lemmas above), and fails
  of \<open>rk3588_tsadc_code_to_temp\<close> in \<open>tsadc_platform.c\<close> on that driver's own table. The
  entry at index 8 is \<open>(40, 2020)\<close>. For the code 2020 the first probe is \<open>mid = 8\<close>,
  the loop breaks, and the result is \<open>table[7].temp - 0 = 30\<close>: the interpolation is
  anchored at the wrong end of the interval. The entry at index 1 is \<open>(-30, 3630)\<close>; for
  the code 3630 the loop breaks at \<open>mid = 2\<close> and the negative \<open>num\<close>, stored in a
  \<open>u32\<close>, makes the quotient wrap. \<open>rk3588_tsadc_get_temp\<close> passes these values on.
\<close>

theorem C2_platform_exact_match_fails:
  "table_at rk3588_code_table_platform 8 = Inr (entry 40 2020)
    \<and> rk3588_tsadc_code_to_temp rk3588_code_table_platform 2020 = Some (Inr 30)
    \<and> table_at rk3588_code_table_platform 1 = Inr (entry (- 30) 3630)
    \<and> rk3588_tsadc_code_to_temp rk3588_code_table_platform 3630 = Some (Inr (- 22605111))
    \<and> rk3588_tsadc_get_temp \<lparr>chip_regs = constant_hw 2020, chip_id = 0\<rparr> = Some (Inr 30)"
  by code_simp

section \<open>Claims about the conversion from temperature to code\<close>

text \<open>
  Inside the table of \<open>tsadc.c\<close>, \<open>temp_to_code\<close> returns the code of the upper end of
  the interval \<open>table[i+1].temp < temp \<le> table[i].temp\<close>, without interpolation.
\<close>

lemma temp_to_code_brackets:
  "(85 < t \<and> t \<le> 125 \<longrightarrow> temp_to_code t = Inr 395)
    \<and> (25 < t \<and> t \<le> 85 \<longrightarrow> temp_to_code t = Inr 350)
    \<and> (- 40 < t \<and> t \<le> 25 \<longrightarrow> temp_to_code t = Inr 285)"
  by (simp add: temp_to_code_def temp_to_code_on_def temp_to_code_loop.simps scan_bound_def
      in_bracket_def table_at_def rk3588_code_table_def entry_def)

text \<open>
  C4. The coldest entry of the table of \<open>tsadc.c\<close> is \<open>(-40, 215)\<close>, at index 3, and
  the first entry is the hottest, \<open>(125, 395)\<close>. For the temperature -41, below every
  entry, no interval matches and \<open>temp_to_code\<close> returns \<open>table[0].code = 395\<close>, the
  code of the hottest entry, where the claim (and the comment \<open>Default to coldest\<close> on
  that \<open>return\<close>) say the coldest code, 215.
\<close>

theorem C4_below_range_returns_hottest_code:
  "temp_to_code (- 41) = Inr 395
    \<and> table_at rk3588_code_table 0 = Inr (entry 125 395)
    \<and> table_at rk3588_code_table 3 = Inr (entry (- 40) 215)
    \<and> temp_to_code 126 = Inr 395"
  by code_simp

section \<open>Claims about the interrupt handler and the wait queue\<close>

lemma u32_u32: "u32 (u32 x) = u32 x"
  by (simp add: u32_def)

lemma woken_append: "woken (es @ fs) = woken es @ woken fs"
  by (induction es rule: woken.induct) simp_all

text \<open>
  C5, as amended. For a device whose active channel is valid, the handler reads the
  pending-interrupt register once and writes back to it exactly the value read. If the
  bit of the active channel is set in that value, the single event flag of the device
  becomes true and one wake-up is issued to all threads on the wait queue; otherwise
  the flag stays as it was and nobody is woken. Bits of other channels are acknowledged
  and have no other effect. Nothing else of the device changes.
\<close>

theorem C5_isr_acknowledges_and_signals_active_channel:
  assumes "0 \<le> current_channel dev" and "current_channel dev < TSADC_MAX_CHANNELS"
  shows "tsadc_isr dev =
    (IRQ_HANDLED,
     if bit (u32 (regs dev TSADC_INT_PD)) (nat (current_channel dev))
     then dev\<lparr>irq_fired := True,
              events := events dev @
                [Readl TSADC_INT_PD (u32 (regs dev TSADC_INT_PD)),
                 Writel (u32 (regs dev TSADC_INT_PD)) TSADC_INT_PD,
                 Wake_Up (waitq dev)]\<rparr>
     else dev\<lparr>events := events dev @
                [Readl TSADC_INT_PD (u32 (regs dev TSADC_INT_PD)),
                 Writel (u32 (regs dev TSADC_INT_PD)) TSADC_INT_PD]\<rparr>)"
  by (simp add: tsadc_isr_def readl_relaxed_def writel_relaxed_def wake_up_interruptible_def
      TSADC_INT_SRC_MASK_def BIT_def u32_u32 and_exp_eq_0_iff_not_bit Let_def)

theorem C5_witness:
  "0 \<le> current_channel ((tsadc_char_init (constant_hw 4))\<lparr>current_channel := 2, waitq := [7]\<rparr>)
    \<and> current_channel ((tsadc_char_init (constant_hw 4))\<lparr>current_channel := 2, waitq := [7]\<rparr>)
        < TSADC_MAX_CHANNELS
    \<and> irq_fired (snd (tsadc_isr
        ((tsadc_char_init (constant_hw 4))\<lparr>current_channel := 2, waitq := [7]\<rparr>)))
    \<and> events (snd (tsadc_isr
        ((tsadc_char_init (constant_hw 4))\<lparr>current_channel := 2, waitq := [7]\<rparr>)))
      = [Writel 16 4, Writel 17 4, Readl 12 4, Writel 4 12, Wake_Up [7]]"
proof -
  let ?dev = "(tsadc_char_init (constant_hw 4))\<lparr>current_channel := 2, waitq := [7]\<rparr>"
  have h1: "0 \<le> current_channel ?dev" and h2: "current_channel ?dev < TSADC_MAX_CHANNELS"
    by (simp_all add: TSADC_MAX_CHANNELS_def)
  have pending: "bit (u32 (regs ?dev TSADC_INT_PD)) (nat (current_channel ?dev))"
    by (simp add: tsadc_char_init_def writel_relaxed_def constant_hw_def u32_def bit_iff_odd)
  have before: "events ?dev = [Writel 16 4, Writel 17 4]"
    by (simp add: tsadc_char_init_def writel_relaxed_def TSADC_AUTO_CON_def
        TSADC_AUTO_CON_SRC_EN_def TSADC_AUTO_CON_START_def BIT_def u32_def)
  have val: "u32 (regs ?dev TSADC_INT_PD) = 4"
    by (simp add: tsadc_char_init_def writel_relaxed_def constant_hw_def u32_def)
  show ?thesis
    using h1 h2 pending before val
    by (simp add: C5_isr_acknowledges_and_signals_active_channel [OF h1 h2] TSADC_INT_PD_def)
qed

text \<open>
  C5 as stated fails for a channel that is not the active one: the device has one event
  flag, and the handler tests the bit of the active channel only. With channel 2 active
  and the pending value 8 (the bit of channel 3), the bit of channel 3 is set in the
  value read, yet after the handler no event flag is true and no thread was woken; the
  value 8 was acknowledged.
\<close>

theorem C5_counterexample:
  "(8 :: int) AND TSADC_INT_SRC_MASK 3 \<noteq> 0
    \<and> \<not> irq_fired (snd (tsadc_isr
        ((tsadc_char_init (constant_hw 8))\<lparr>current_channel := 2, waitq := [7]\<rparr>)))
    \<and> woken (events (snd (tsadc_isr
        ((tsadc_char_init (constant_hw 8))\<lparr>current_channel := 2, waitq := [7]\<rparr>)))) = []
    \<and> events (snd (tsadc_isr
        ((tsadc_char_init (constant_hw 8))\<lparr>current_channel := 2, waitq := [7]\<rparr>)))
      = [Writel 16 4, Writel 17 4, Readl 12 8, Writel 8 12]"
  by code_simp

text \<open>
  C9, as amended. Module exit stops the hardware with two register writes and releases
  the resources; it issues no wake-up, so the threads on the wait queue and the threads
  woken so far are as before, and the event flag is unchanged.
\<close>

theorem C9_exit_wakes_nobody:
  "events (tsadc_char_exit dev) = events dev @
      [Writel 0 TSADC_AUTO_CON, Writel 0 TSADC_INT_EN,
       Call ''reset_control_assert'', Call ''clk_disable_unprepare'',
       Call ''free_irq'', Call ''reset_control_put'', Call ''clk_put'', Call ''iounmap'',
       Call ''cdev_del'', Call ''device_destroy'', Call ''class_destroy'',
       Call ''unregister_chrdev_region'', Call ''kfree'']
    \<and> woken (events (tsadc_char_exit dev)) = woken (events dev)
    \<and> waitq (tsadc_char_exit dev) = waitq dev
    \<and> irq_fired (tsadc_char_exit dev) = irq_fired dev"
  by (simp add: tsadc_char_exit_def writel_relaxed_def woken_append u32_def)

text \<open>
  C9 as stated fails: thread 1 polls a freshly initialised device, finds no event (mask
  0) and is on the wait queue; after module exit it is still there and no wake-up has
  named it.
\<close>

theorem C9_counterexample:
  "fst (my_poll 1 (tsadc_char_init (constant_hw 0))) = 0
    \<and> waitq (snd (my_poll 1 (tsadc_char_init (constant_hw 0)))) = [1]
    \<and> waitq (tsadc_char_exit (snd (my_poll 1 (tsadc_char_init (constant_hw 0))))) = [1]
    \<and> woken (events (tsadc_char_exit (snd (my_poll 1 (tsadc_char_init (constant_hw 0)))))) = []"
  by code_simp

section \<open>Claims about the control surface\<close>

text \<open>
  C7. \<open>TSADC_SET_CHANNEL\<close> with an id outside \<open>[0, TSADC_MAX_CHANNELS)\<close> returns
  \<open>-EINVAL\<close> and leaves the whole device as it was, in particular for the ids -1 and
  \<open>TSADC_MAX_CHANNELS\<close>; with an id inside the range it returns 0 and changes the
  active channel and nothing else (threshold, event flag, wait queue and trace are those
  of the device before).
\<close>

theorem C7_set_channel:
  "my_ioctl dev TSADC_SET_CHANNEL (User_Int ch) =
      (if 0 \<le> ch \<and> ch < TSADC_MAX_CHANNELS
       then (Inr 0, User_Int ch, dev\<lparr>current_channel := ch\<rparr>)
       else (Inl EINVAL, User_Int ch, dev))
    \<and> my_ioctl dev TSADC_SET_CHANNEL (User_Int (- 1)) = (Inl EINVAL, User_Int (- 1), dev)
    \<and> my_ioctl dev TSADC_SET_CHANNEL (User_Int TSADC_MAX_CHANNELS)
        = (Inl EINVAL, User_Int TSADC_MAX_CHANNELS, dev)
    \<and> int_threshold_temp (snd (snd (my_ioctl dev TSADC_SET_CHANNEL (User_Int ch))))
        = int_threshold_temp dev
    \<and> irq_fired (snd (snd (my_ioctl dev TSADC_SET_CHANNEL (User_Int ch)))) = irq_fired dev
    \<and> events (snd (snd (my_ioctl dev TSADC_SET_CHANNEL (User_Int ch)))) = events dev"
  by (auto simp: my_ioctl_def TSADC_MAX_CHANNELS_def)

theorem C7_witness:
  "(0 :: int) \<le> 7 \<and> 7 < TSADC_MAX_CHANNELS
    \<and> fst (my_ioctl (tsadc_char_init (constant_hw 0)) TSADC_SET_CHANNEL (User_Int 7)) = Inr 0
    \<and> current_channel (snd (snd
          (my_ioctl (tsadc_char_init (constant_hw 0)) TSADC_SET_CHANNEL (User_Int 7)))) = 7
    \<and> fst (my_ioctl (tsadc_char_init (constant_hw 0)) TSADC_SET_CHANNEL (User_Int 8))
        = Inl EINVAL
    \<and> current_channel (snd (snd
          (my_ioctl (tsadc_char_init (constant_hw 0)) TSADC_SET_CHANNEL (User_Int 8)))) = 0"
proof -
  have ok: "(0 :: int) \<le> 7 \<and> 7 < TSADC_MAX_CHANNELS"
    and bad: "\<not> ((0 :: int) \<le> 8 \<and> 8 < TSADC_MAX_CHANNELS)"
    by (simp_all add: TSADC_MAX_CHANNELS_def)
  have start: "current_channel (tsadc_char_init (constant_hw 0)) = 0"
    by (simp add: tsadc_char_init_def writel_relaxed_def)
  from C7_set_channel [of "tsadc_char_init (constant_hw 0)" 7]
    C7_set_channel [of "tsadc_char_init (constant_hw 0)" 8] ok bad start
  show ?thesis by simp
qed

section \<open>Claims about the sampling readers\<close>

text \<open>The three outcomes of \<open>code_to_temp\<close> on the table of \<open>tsadc.c\<close>.\<close>

lemma code_to_temp_above: "395 < c \<Longrightarrow> code_to_temp c = Some (Inl EAGAIN)"
  by (simp add: code_to_temp_def code_to_temp_on_def convert_not_ready
      rk3588_code_table_def entry_def)

lemma code_to_temp_below: "c < 215 \<Longrightarrow> code_to_temp c = Some (Inl EINVAL)"
  by (simp add: code_to_temp_def code_to_temp_on_def convert_def table_at_def last_index_def
      u32_def rk3588_code_table_def entry_def)

lemma code_to_temp_inside:
  assumes "215 \<le> c" and "c \<le> 395"
  shows "\<exists>t. code_to_temp c = Some (Inr t)"
proof -
  have wf: "2 \<le> length rk3588_code_table" "descending_codes rk3588_code_table"
      "descending_temps rk3588_code_table" "fits16 rk3588_code_table"
    using default_table_wellformed by simp_all
  have lo: "code (rk3588_code_table ! (length rk3588_code_table - 1)) \<le> c"
    and hi: "c \<le> code (rk3588_code_table ! 0)"
    using assms by (simp_all add: rk3588_code_table_def entry_def)
  from code_to_temp_on_linear [OF wf lo hi] show ?thesis
    unfolding code_to_temp_def by blast
qed

lemma sprintf_d_nl_ends_in_newline:
  "sprintf_d_nl t \<noteq> [] \<and> last (sprintf_d_nl t) = CHR 0x0A"
  by (simp add: sprintf_d_nl_def)

lemma sprintf_d_nl_sentinel: "sprintf_d_nl (- 40) = [CHR ''-'', CHR ''4'', CHR ''0'', CHR 0x0A]"
  by (simp add: sprintf_d_nl_def decimal.simps digit_def)

text \<open>
  C6. Take a read that samples (\<open>*off \<le> 0\<close>, \<open>len \<ge> 12\<close>). If the conversion of the
  masked raw code yields \<open>-EAGAIN\<close> (NotReady), \<open>my_read\<close> goes on with the temperature
  -40, the coldest of its table: with a writable buffer it returns the four bytes
  \<open>-40\<close> and newline and advances the offset by 4 (the only other outcome is the fault of
  the copy itself). If the conversion yields \<open>-EINVAL\<close> (OutOfRange), \<open>my_read\<close> returns
  \<open>-EINVAL\<close> and leaves the offset. \<open>rk3588_tsadc_get_temp\<close> returns what the conversion
  returns, except that \<open>-EAGAIN\<close> becomes success with -40000.
\<close>

theorem C6_not_ready_substituted_out_of_range_surfaced:
  assumes "off \<le> 0" and "12 \<le> len"
  shows
   "(code_to_temp (u32 (regs dev (TSADC_DATA (current_channel dev))) AND TSADC_DATA_MASK)
        = Some (Inl EAGAIN) \<longrightarrow>
      my_read dev writable len off =
        Some (if writable
              then (Inr [CHR ''-'', CHR ''4'', CHR ''0'', CHR 0x0A], off + 4,
                    snd (readl_relaxed dev (TSADC_DATA (current_channel dev))))
              else (Inl EFAULT, off,
                    snd (readl_relaxed dev (TSADC_DATA (current_channel dev))))))
    \<and> (code_to_temp (u32 (regs dev (TSADC_DATA (current_channel dev))) AND TSADC_DATA_MASK)
        = Some (Inl EINVAL) \<longrightarrow>
      my_read dev writable len off =
        Some (Inl EINVAL, off, snd (readl_relaxed dev (TSADC_DATA (current_channel dev)))))
    \<and> rk3588_tsadc_get_temp chip =
        map_option (\<lambda>ret. if ret = Inl EAGAIN then Inr (- 40000) else ret)
          (rk3588_tsadc_code_to_temp rk3588_code_table_platform
            (s32 (u32 (chip_regs chip (TSADC_DATA_platform (chip_id chip))))
              AND TSADC_DATA_MASK))"
proof -
  have "rk3588_tsadc_get_temp chip =
        map_option (\<lambda>ret. if ret = Inl EAGAIN then Inr (- 40000) else ret)
          (rk3588_tsadc_code_to_temp rk3588_code_table_platform
            (s32 (u32 (chip_regs chip (TSADC_DATA_platform (chip_id chip))))
              AND TSADC_DATA_MASK))"
    by (auto simp: rk3588_tsadc_get_temp_def Let_def split: option.splits sum.splits)
  then show ?thesis
    using assms
    by (simp add: my_read_def readl_relaxed_def Let_def sprintf_d_nl_sentinel)
qed

theorem C6_witness:
  "(0 :: int) \<le> 0 \<and> (12 :: int) \<le> 16
    \<and> code_to_temp 400 = Some (Inl EAGAIN)
    \<and> map_option fst (my_read (tsadc_char_init (constant_hw 400)) True 16 0)
        = Some (Inr [CHR ''-'', CHR ''4'', CHR ''0'', CHR 0x0A])
    \<and> map_option (fst \<circ> snd) (my_read (tsadc_char_init (constant_hw 400)) True 16 0) = Some 4
    \<and> code_to_temp 100 = Some (Inl EINVAL)
    \<and> map_option fst (my_read (tsadc_char_init (constant_hw 100)) True 16 0)
        = Some (Inl EINVAL)
    \<and> rk3588_tsadc_get_temp \<lparr>chip_regs = constant_hw 4000, chip_id = 0\<rparr> = Some (Inr (- 40000))"
proof -
  have h1: "(0 :: int) \<le> 0" and h2: "(12 :: int) \<le> 16" by simp_all
  let ?cold = "tsadc_char_init (constant_hw 400)" and ?hot = "tsadc_char_init (constant_hw 100)"
  let ?chip = "\<lparr>chip_regs = constant_hw 4000, chip_id = 0\<rparr>"
  have raw_cold: "u32 (regs ?cold (TSADC_DATA (current_channel ?cold))) AND TSADC_DATA_MASK = 400"
    and raw_hot: "u32 (regs ?hot (TSADC_DATA (current_channel ?hot))) AND TSADC_DATA_MASK = 100"
    by (simp_all add: tsadc_char_init_def writel_relaxed_def constant_hw_def u32_def
        TSADC_DATA_MASK_def)
  have raw_chip: "s32 (u32 (chip_regs ?chip (TSADC_DATA_platform (chip_id ?chip))))
      AND TSADC_DATA_MASK = 4000"
    by (simp add: constant_hw_def u32_def s32_def TSADC_DATA_MASK_def)
  have not_ready: "code_to_temp 400 = Some (Inl EAGAIN)"
    and out_of_range: "code_to_temp 100 = Some (Inl EINVAL)"
    and chip_not_ready:
      "rk3588_tsadc_code_to_temp rk3588_code_table_platform 4000 = Some (Inl EAGAIN)"
    by code_simp+
  note cold = C6_not_ready_substituted_out_of_range_surfaced [OF h1 h2, of ?cold True ?chip]
  note hot = C6_not_ready_substituted_out_of_range_surfaced [OF h1 h2, of ?hot True ?chip]
  have "my_read ?cold True 16 0 =
      Some (Inr [CHR ''-'', CHR ''4'', CHR ''0'', CHR 0x0A], 0 + 4,
            snd (readl_relaxed ?cold (TSADC_DATA (current_channel ?cold))))"
    using cold not_ready unfolding raw_cold by simp
  moreover have "my_read ?hot True 16 0 =
      Some (Inl EINVAL, 0, snd (readl_relaxed ?hot (TSADC_DATA (current_channel ?hot))))"
    using hot out_of_range unfolding raw_hot by simp
  moreover have "rk3588_tsadc_get_temp ?chip = Some (Inr (- 40000))"
    using cold chip_not_ready unfolding raw_chip by simp
  ultimately show ?thesis
    using not_ready out_of_range by simp
qed

text \<open>
  C8, as amended. A read with offset above 0 or a buffer of fewer than 12 bytes returns
  zero bytes and touches nothing: no register is read. A read at offset 0 with at least
  12 bytes reads the data register of the active channel exactly once, whatever follows.
  If the masked raw code is above 395, the first code of the table, the sample is the
  sentinel -40; if it lies in \<open>[215, 395]\<close> the sample is the temperature \<open>t\<close> that
  \<open>code_to_temp\<close> returns for it. With a writable buffer the read returns that sample
  as decimal text ending in a newline and sets the offset to the length of the text;
  with an unwritable buffer it returns \<open>-EFAULT\<close> and leaves the offset at 0. If the
  masked raw code is below 215, the last code of the table, the read returns \<open>-EINVAL\<close>,
  no sample, and the offset stays 0. The text of a sample is never empty, so the offset
  after a successful read is positive and every later read at that offset returns zero
  bytes.
\<close>

theorem C8_read_one_sample_per_offset_cycle:
  "(0 < off \<or> len < 12 \<longrightarrow> my_read dev writable len off = Some (Inr [], off, dev))
    \<and> (12 \<le> len
        \<and> 395 < u32 (regs dev (TSADC_DATA (current_channel dev))) AND TSADC_DATA_MASK \<longrightarrow>
      my_read dev writable len 0 =
        Some (if writable
              then (Inr (sprintf_d_nl (- 40)), int (length (sprintf_d_nl (- 40))),
                    dev\<lparr>events := events dev @
                      [Readl (TSADC_DATA (current_channel dev))
                         (u32 (regs dev (TSADC_DATA (current_channel dev))))]\<rparr>)
              else (Inl EFAULT, 0,
                    dev\<lparr>events := events dev @
                      [Readl (TSADC_DATA (current_channel dev))
                         (u32 (regs dev (TSADC_DATA (current_channel dev))))]\<rparr>)))
    \<and> (12 \<le> len
        \<and> 215 \<le> u32 (regs dev (TSADC_DATA (current_channel dev))) AND TSADC_DATA_MASK
        \<and> u32 (regs dev (TSADC_DATA (current_channel dev))) AND TSADC_DATA_MASK \<le> 395 \<longrightarrow>
      (\<exists>t. code_to_temp (u32 (regs dev (TSADC_DATA (current_channel dev))) AND TSADC_DATA_MASK)
              = Some (Inr t)
          \<and> my_read dev writable len 0 =
              Some (if writable
                    then (Inr (sprintf_d_nl t), int (length (sprintf_d_nl t)),
                          dev\<lparr>events := events dev @
                            [Readl (TSADC_DATA (current_channel dev))
                               (u32 (regs dev (TSADC_DATA (current_channel dev))))]\<rparr>)
                    else (Inl EFAULT, 0,
                          dev\<lparr>events := events dev @
                            [Readl (TSADC_DATA (current_channel dev))
                               (u32 (regs dev (TSADC_DATA (current_channel dev))))]\<rparr>))))
    \<and> (12 \<le> len
        \<and> u32 (regs dev (TSADC_DATA (current_channel dev))) AND TSADC_DATA_MASK < 215 \<longrightarrow>
      my_read dev writable len 0 =
        Some (Inl EINVAL, 0,
              dev\<lparr>events := events dev @
                [Readl (TSADC_DATA (current_channel dev))
                   (u32 (regs dev (TSADC_DATA (current_channel dev))))]\<rparr>))
    \<and> sprintf_d_nl t' \<noteq> [] \<and> last (sprintf_d_nl t') = CHR 0x0A
    \<and> my_read dev' writable' len' (int (length (sprintf_d_nl t')))
        = Some (Inr [], int (length (sprintf_d_nl t')), dev')"
proof (intro conjI impI)
  assume "0 < off \<or> len < 12"
  then show "my_read dev writable len off = Some (Inr [], off, dev)"
    by (auto simp: my_read_def)
next
  let ?raw = "u32 (regs dev (TSADC_DATA (current_channel dev))) AND TSADC_DATA_MASK"
  assume a: "12 \<le> len \<and> 395 < ?raw"
  then have "code_to_temp ?raw = Some (Inl EAGAIN)" by (intro code_to_temp_above) simp
  with a show "my_read dev writable len 0 =
        Some (if writable
              then (Inr (sprintf_d_nl (- 40)), int (length (sprintf_d_nl (- 40))),
                    dev\<lparr>events := events dev @
                      [Readl (TSADC_DATA (current_channel dev))
                         (u32 (regs dev (TSADC_DATA (current_channel dev))))]\<rparr>)
              else (Inl EFAULT, 0,
                    dev\<lparr>events := events dev @
                      [Readl (TSADC_DATA (current_channel dev))
                         (u32 (regs dev (TSADC_DATA (current_channel dev))))]\<rparr>))"
    by (simp add: my_read_def readl_relaxed_def Let_def)
next
  let ?raw = "u32 (regs dev (TSADC_DATA (current_channel dev))) AND TSADC_DATA_MASK"
  assume a: "12 \<le> len \<and> 215 \<le> ?raw \<and> ?raw \<le> 395"
  then obtain t where t: "code_to_temp ?raw = Some (Inr t)"
    using code_to_temp_inside [of ?raw] by auto
  with a have "my_read dev writable len 0 =
              Some (if writable
                    then (Inr (sprintf_d_nl t), int (length (sprintf_d_nl t)),
                          dev\<lparr>events := events dev @
                            [Readl (TSADC_DATA (current_channel dev))
                               (u32 (regs dev (TSADC_DATA (current_channel dev))))]\<rparr>)
                    else (Inl EFAULT, 0,
                          dev\<lparr>events := events dev @
                            [Readl (TSADC_DATA (current_channel dev))
                               (u32 (regs dev (TSADC_DATA (current_channel dev))))]\<rparr>))"
    by (simp add: my_read_def readl_relaxed_def Let_def)
  with t show "\<exists>t. code_to_temp ?raw = Some (Inr t)
          \<and> my_read dev writable len 0 =
              Some (if writable
                    then (Inr (sprintf_d_nl t), int (length (sprintf_d_nl t)),
                          dev\<lparr>events := events dev @
                            [Readl (TSADC_DATA (current_channel dev))
                               (u32 (regs dev (TSADC_DATA (current_channel dev))))]\<rparr>)
                    else (Inl EFAULT, 0,
                          dev\<lparr>events := events dev @
                            [Readl (TSADC_DATA (current_channel dev))
                               (u32 (regs dev (TSADC_DATA (current_channel dev))))]\<rparr>))"
    by blast
next
  let ?raw = "u32 (regs dev (TSADC_DATA (current_channel dev))) AND TSADC_DATA_MASK"
  assume a: "12 \<le> len \<and> ?raw < 215"
  then have "code_to_temp ?raw = Some (Inl EINVAL)" by (intro code_to_temp_below) simp
  with a show "my_read dev writable len 0 =
      Some (Inl EINVAL, 0,
            dev\<lparr>events := events dev @
              [Readl (TSADC_DATA (current_channel dev))
                 (u32 (regs dev (TSADC_DATA (current_channel dev))))]\<rparr>)"
    by (simp add: my_read_def readl_relaxed_def Let_def)
next
  show "sprintf_d_nl t' \<noteq> []" and "last (sprintf_d_nl t') = CHR 0x0A"
    using sprintf_d_nl_ends_in_newline [of t'] by simp_all
next
  have "0 < int (length (sprintf_d_nl t'))"
    using sprintf_d_nl_ends_in_newline [of t'] by simp
  then show "my_read dev' writable' len' (int (length (sprintf_d_nl t')))
      = Some (Inr [], int (length (sprintf_d_nl t')), dev')"
    by (simp add: my_read_def)
qed

theorem C8_witness:
  "(0 :: int) < 3 \<and> (12 :: int) \<le> 16
    \<and> map_option fst (my_read (tsadc_char_init (constant_hw 320)) True 16 3) = Some (Inr [])
    \<and> map_option (events \<circ> snd \<circ> snd) (my_read (tsadc_char_init (constant_hw 320)) True 16 3)
        = Some [Writel 16 4, Writel 17 4]
    \<and> (395 :: int) < 400
    \<and> map_option fst (my_read (tsadc_char_init (constant_hw 400)) True 16 0)
        = Some (Inr [CHR ''-'', CHR ''4'', CHR ''0'', CHR 0x0A])
    \<and> (215 :: int) \<le> 320 \<and> (320 :: int) \<le> 395
    \<and> code_to_temp 320 = Some (Inr 57)
    \<and> map_option fst (my_read (tsadc_char_init (constant_hw 320)) True 16 0)
        = Some (Inr [CHR ''5'', CHR ''7'', CHR 0x0A])
    \<and> map_option (fst \<circ> snd) (my_read (tsadc_char_init (constant_hw 320)) True 16 0) = Some 3
    \<and> map_option (events \<circ> snd \<circ> snd) (my_read (tsadc_char_init (constant_hw 320)) True 16 0)
        = Some [Writel 16 4, Writel 17 4, Readl 44 320]
    \<and> map_option fst (my_read (tsadc_char_init (constant_hw 320)) False 16 0)
        = Some (Inl EFAULT)
    \<and> map_option (events \<circ> snd \<circ> snd) (my_read (tsadc_char_init (constant_hw 320)) False 16 0)
        = Some [Writel 16 4, Writel 17 4, Readl 44 320]
    \<and> (100 :: int) < 215
    \<and> map_option fst (my_read (tsadc_char_init (constant_hw 100)) True 16 0)
        = Some (Inl EINVAL)"
proof -
  let ?dev = "tsadc_char_init (constant_hw 320)" and ?hot = "tsadc_char_init (constant_hw 100)"
    and ?cold = "tsadc_char_init (constant_hw 400)"
  have raw: "u32 (regs ?dev (TSADC_DATA (current_channel ?dev))) AND TSADC_DATA_MASK = 320"
    and raw_hot: "u32 (regs ?hot (TSADC_DATA (current_channel ?hot))) AND TSADC_DATA_MASK = 100"
    and raw_cold: "u32 (regs ?cold (TSADC_DATA (current_channel ?cold))) AND TSADC_DATA_MASK = 400"
    by (simp_all add: tsadc_char_init_def writel_relaxed_def constant_hw_def u32_def
        TSADC_DATA_MASK_def)
  have ev: "events ?dev = [Writel 16 4, Writel 17 4]"
    by code_simp
  have rd: "Readl (TSADC_DATA (current_channel ?dev))
      (u32 (regs ?dev (TSADC_DATA (current_channel ?dev)))) = Readl 44 320"
    by (simp add: tsadc_char_init_def writel_relaxed_def constant_hw_def u32_def TSADC_DATA_def)
  have conv: "code_to_temp 320 = Some (Inr 57)"
    by code_simp
  have txt57: "sprintf_d_nl 57 = [CHR ''5'', CHR ''7'', CHR 0x0A]"
    by (simp add: sprintf_d_nl_def decimal.simps digit_def)
  note late = C8_read_one_sample_per_offset_cycle [of 3 16 ?dev True 57 ?dev True 16]
  note fresh = C8_read_one_sample_per_offset_cycle [of 0 16 ?dev True 57 ?dev True 16]
  note nobuf = C8_read_one_sample_per_offset_cycle [of 0 16 ?dev False 57 ?dev True 16]
  note cold = C8_read_one_sample_per_offset_cycle [of 0 16 ?cold True 57 ?dev True 16]
  note hot = C8_read_one_sample_per_offset_cycle [of 0 16 ?hot True 57 ?dev True 16]
  have first: "my_read ?dev True 16 3 = Some (Inr [], 3, ?dev)"
    using late by simp
  have sentinel: "my_read ?cold True 16 0 =
      Some (Inr (sprintf_d_nl (- 40)), int (length (sprintf_d_nl (- 40))),
            ?cold\<lparr>events := events ?cold @
              [Readl (TSADC_DATA (current_channel ?cold))
                 (u32 (regs ?cold (TSADC_DATA (current_channel ?cold))))]\<rparr>)"
    using cold unfolding raw_cold by simp
  from fresh obtain t where "code_to_temp 320 = Some (Inr t)"
    and sample: "my_read ?dev True 16 0 =
      Some (Inr (sprintf_d_nl t), int (length (sprintf_d_nl t)),
            ?dev\<lparr>events := events ?dev @
              [Readl (TSADC_DATA (current_channel ?dev))
                 (u32 (regs ?dev (TSADC_DATA (current_channel ?dev))))]\<rparr>)"
    unfolding raw by auto
  with conv have t57: "t = 57" by simp
  from nobuf obtain u where "code_to_temp 320 = Some (Inr u)"
    and fault: "my_read ?dev False 16 0 =
      Some (Inl EFAULT, 0,
            ?dev\<lparr>events := events ?dev @
              [Readl (TSADC_DATA (current_channel ?dev))
                 (u32 (regs ?dev (TSADC_DATA (current_channel ?dev))))]\<rparr>)"
    unfolding raw by auto
  have again: "my_read ?dev True 16 (int (length (sprintf_d_nl 57)))
      = Some (Inr [], int (length (sprintf_d_nl 57)), ?dev)"
    using late by simp
  have out: "my_read ?hot True 16 0 =
      Some (Inl EINVAL, 0,
            ?hot\<lparr>events := events ?hot @
              [Readl (TSADC_DATA (current_channel ?hot))
                 (u32 (regs ?hot (TSADC_DATA (current_channel ?hot))))]\<rparr>)"
    using hot unfolding raw_hot by simp
  show ?thesis
    using first sentinel sample fault again out conv
    unfolding t57 rd by (simp add: ev txt57 sprintf_d_nl_sentinel)
qed

text \<open>
  C8 as stated fails at offset 0 with a buffer of 16 bytes when the data register reads
  100, a code below the last code of the table: the read returns \<open>-EINVAL\<close> and no
  sample.
\<close>

theorem C8_counterexample:
  "(12 :: int) \<le> 16
    \<and> map_option fst (my_read (tsadc_char_init (constant_hw 100)) True 16 0) = Some (Inl EINVAL)
    \<and> map_option (fst \<circ> snd) (my_read (tsadc_char_init (constant_hw 100)) True 16 0) = Some 0"
  by code_simp

end
